theory Spec2Isabelle
  imports Main
begin

section \<open>Data model\<close>

text \<open>
  The pipeline of \<^verbatim>\<open>utils.py\<close> works on pandas data frames. A text cell holds a string
  or is missing (NaN, for which \<^verbatim>\<open>pd.isna\<close> is true); a year cell holds an integer or is
  missing. A frame is its list of column names together with its rows; reading a column
  that the frame does not have raises \<^verbatim>\<open>KeyError\<close>. Row labels are the positions of the
  rows (the labels the file readers assign, kept by boolean-mask filtering), so
  \<^verbatim>\<open>df.loc[labels]\<close> selects exactly the labelled rows, in order.

  Strings are lists of 8-bit characters. Case folding and white space follow Python on
  ASCII text: \<^verbatim>\<open>str.lower\<close> maps A-Z to a-z, and \<^verbatim>\<open>str.strip\<close> and the pattern
  \<^verbatim>\<open>\s\<close> take the characters 9-13, 28-31 and 32 as white space.
\<close>

datatype error = KeyError | TypeError

type_synonym cell = "string option"

record row =
  Title :: cell
  Year :: "int option"
  Authors :: cell
  Author_full_names :: cell
  Authors_with_affiliations :: cell
  Source_title :: cell
  Volume :: cell
  Issue :: cell
  Art_No :: cell
  Page_start :: cell
  Page_end :: cell
  Page_count :: cell

record 'r frame =
  columns :: "string list"
  rows :: "'r list"

definition has_column :: "'r frame \<Rightarrow> string \<Rightarrow> bool" where
  "has_column df name = (name \<in> set (columns df))"

section \<open>Strings\<close>

definition is_space :: "char \<Rightarrow> bool" where
  "is_space c = (let n = (of_char c :: nat) in (9 \<le> n \<and> n \<le> 13) \<or> (28 \<le> n \<and> n \<le> 32))"

definition is_digit :: "char \<Rightarrow> bool" where
  "is_digit c = (let n = (of_char c :: nat) in 48 \<le> n \<and> n \<le> 57)"

definition lower_char :: "char \<Rightarrow> char" where
  "lower_char c =
     (case map_of (zip ''ABCDEFGHIJKLMNOPQRSTUVWXYZ'' ''abcdefghijklmnopqrstuvwxyz'') c of
        None \<Rightarrow> c
      | Some l \<Rightarrow> l)"

definition lower :: "string \<Rightarrow> string" where
  "lower s = map lower_char s"

definition strip :: "string \<Rightarrow> string" where
  "strip s = rev (dropWhile is_space (rev (dropWhile is_space s)))"

text \<open>\<^verbatim>\<open>s.split(sep)\<close> for a one-character separator: always at least one piece.\<close>

fun split :: "char \<Rightarrow> string \<Rightarrow> string list" where
  "split sep [] = [[]]"
| "split sep (c # cs) =
     (if c = sep then [] # split sep cs
      else (case split sep cs of [] \<Rightarrow> [[c]] | p # ps \<Rightarrow> (c # p) # ps))"

text \<open>\<^verbatim>\<open>sep.join(xs)\<close>.\<close>

fun join :: "string \<Rightarrow> string list \<Rightarrow> string" where
  "join sep [] = []"
| "join sep [x] = x"
| "join sep (x # y # ys) = x @ sep @ join sep (y # ys)"

fun startswith :: "string \<Rightarrow> string \<Rightarrow> bool" where
  "startswith s [] = True"
| "startswith [] (p # ps) = False"
| "startswith (c # cs) (p # ps) = (c = p \<and> startswith cs ps)"

text \<open>\<^verbatim>\<open>sub in s\<close> on strings.\<close>

fun contains :: "string \<Rightarrow> string \<Rightarrow> bool" where
  "contains [] sub = (sub = [])"
| "contains (c # cs) sub = (startswith (c # cs) sub \<or> contains cs sub)"

text \<open>\<^verbatim>\<open>re.sub(r'\s+', ' ', s)\<close>: every maximal run of white space becomes one space.\<close>

function collapse_ws :: "string \<Rightarrow> string" where
  "collapse_ws [] = []"
| "collapse_ws (c # cs) =
     (if is_space c then CHR '' '' # collapse_ws (dropWhile is_space cs)
      else c # collapse_ws cs)"
  by pat_completeness auto
termination
  by (relation "measure length") (auto simp: length_dropWhile_le less_Suc_eq_le)

section \<open>Title normalizer\<close>

definition normalize_title :: "cell \<Rightarrow> string" where
  "normalize_title title =
     (case title of None \<Rightarrow> [] | Some t \<Rightarrow> collapse_ws (strip (lower t)))"

section \<open>Duplicate detector\<close>

text \<open>
  \<^verbatim>\<open>fuzz.ratio\<close> comes from the fuzzywuzzy library, which is no part of the repository:
  the similarity score is a parameter \<open>ratio\<close> of the model.
\<close>

record duplicate_info =
  source_title :: cell
  matched_title :: string
  similarity :: int

record scan_result =
  is_duplicate :: bool
  best_match_score :: int
  best_match_title :: string
  found :: "duplicate_info option"

text \<open>The inner loop over \<^verbatim>\<open>existing_titles\<close>, leaving at the \<^verbatim>\<open>break\<close>.\<close>

fun scan_existing ::
  "(string \<Rightarrow> string \<Rightarrow> int) \<Rightarrow> int \<Rightarrow> cell \<Rightarrow> string \<Rightarrow> string list \<Rightarrow> int \<Rightarrow> string
     \<Rightarrow> scan_result" where
  "scan_existing ratio threshold raw source [] best_score best_title =
     \<lparr>is_duplicate = False, best_match_score = best_score, best_match_title = best_title,
      found = None\<rparr>"
| "scan_existing ratio threshold raw source (existing_title # rest) best_score best_title =
     (let sim = ratio source existing_title;
          best_score' = (if sim > best_score then sim else best_score);
          best_title' = (if sim > best_score then existing_title else best_title)
      in if sim \<ge> threshold
         then \<lparr>is_duplicate = True, best_match_score = best_score',
               best_match_title = best_title',
               found = Some \<lparr>source_title = raw, matched_title = existing_title,
                             similarity = sim\<rparr>\<rparr>
         else scan_existing ratio threshold raw source rest best_score' best_title')"

text \<open>The outer loop over the rows of \<^verbatim>\<open>df_source\<close>; \<^verbatim>\<open>row['Title']\<close> needs the column.\<close>

fun source_loop ::
  "(string \<Rightarrow> string \<Rightarrow> int) \<Rightarrow> int \<Rightarrow> string list \<Rightarrow> bool \<Rightarrow> row list
     \<Rightarrow> row list \<Rightarrow> duplicate_info list \<Rightarrow> error + (row list \<times> duplicate_info list)" where
  "source_loop ratio threshold existing_titles has_title [] new_articles duplicates_info =
     Inr (new_articles, duplicates_info)"
| "source_loop ratio threshold existing_titles has_title (r # rest) new_articles duplicates_info =
     (if \<not> has_title then Inl KeyError
      else
        let source = normalize_title (Title r);
            res = scan_existing ratio threshold (Title r) source existing_titles 0 []
        in source_loop ratio threshold existing_titles has_title rest
             (if \<not> is_duplicate res then new_articles @ [r] else new_articles)
             (case found res of None \<Rightarrow> duplicates_info | Some d \<Rightarrow> duplicates_info @ [d]))"

definition find_new_articles ::
  "(string \<Rightarrow> string \<Rightarrow> int) \<Rightarrow> row frame \<Rightarrow> row frame \<Rightarrow> int
     \<Rightarrow> error + (row frame \<times> duplicate_info list)" where
  "find_new_articles ratio df_source df_existing threshold =
     (if \<not> has_column df_existing ''Title'' then Inl KeyError
      else
        let existing_titles = map (\<lambda>r. normalize_title (Title r)) (rows df_existing)
        in case source_loop ratio threshold existing_titles (has_column df_source ''Title'')
                  (rows df_source) [] [] of
             Inl e \<Rightarrow> Inl e
           | Inr (new_articles, duplicates_info) \<Rightarrow>
               Inr (df_source\<lparr>rows := new_articles\<rparr>, duplicates_info))"

text \<open>
  The specification's reading of the scan: the first reference title, in the given order,
  whose score reaches the threshold, and the report made from it.
\<close>

definition first_qualifying ::
  "(string \<Rightarrow> string \<Rightarrow> int) \<Rightarrow> int \<Rightarrow> string \<Rightarrow> string list \<Rightarrow> string option" where
  "first_qualifying ratio threshold source titles =
     List.find (\<lambda>e. threshold \<le> ratio source e) titles"

definition duplicate_report ::
  "(string \<Rightarrow> string \<Rightarrow> int) \<Rightarrow> int \<Rightarrow> string list \<Rightarrow> row \<Rightarrow> duplicate_info option" where
  "duplicate_report ratio threshold titles r =
     map_option (\<lambda>e. \<lparr>source_title = Title r, matched_title = e,
                       similarity = ratio (normalize_title (Title r)) e\<rparr>)
       (first_qualifying ratio threshold (normalize_title (Title r)) titles)"

definition reference_titles :: "row frame \<Rightarrow> string list" where
  "reference_titles df_existing = map (\<lambda>r. normalize_title (Title r)) (rows df_existing)"

section \<open>Affiliation author extractor\<close>

record full_info =
  full :: string
  ident :: string

text \<open>
  \<^verbatim>\<open>re.match(r'(.+?)\s*\((\d+)\)', part)\<close>. The lazy group takes the shortest non-empty
  prefix without a newline after which white space, an opening parenthesis, a non-empty
  run of digits and a closing parenthesis follow. \<open>id_suffix\<close> matches what follows the
  group: neither the white space nor the digits can give a character back, since the
  next pattern character is of the other kind.
\<close>

definition id_suffix :: "string \<Rightarrow> string option" where
  "id_suffix rest =
     (case dropWhile is_space rest of
        [] \<Rightarrow> None
      | c # r \<Rightarrow>
          if c = CHR ''(''
          then (case dropWhile is_digit r of
                  [] \<Rightarrow> None
                | d # _ \<Rightarrow>
                    if takeWhile is_digit r \<noteq> [] \<and> d = CHR '')''
                    then Some (takeWhile is_digit r) else None)
          else None)"

fun re_match_name_id :: "string \<Rightarrow> string \<Rightarrow> (string \<times> string) option" where
  "re_match_name_id group1 [] = None"
| "re_match_name_id group1 (c # cs) =
     (if c = CHR 0x0A then None
      else (case id_suffix cs of
              Some digits \<Rightarrow> Some (group1 @ [c], digits)
            | None \<Rightarrow> re_match_name_id (group1 @ [c]) cs))"

text \<open>The body of the loop over \<^verbatim>\<open>full_name_parts\<close>: the key and the entry it stores.\<close>

definition parse_full_name :: "string \<Rightarrow> (string \<times> full_info) option" where
  "parse_full_name part =
     (case re_match_name_id [] (strip part) of
        None \<Rightarrow> None
      | Some (group1, group2) \<Rightarrow>
          (let name = strip group1; author_id = strip group2
           in case split (CHR '','') name of
                [] \<Rightarrow> None
              | p # _ \<Rightarrow> Some (strip p, \<lparr>full = name, ident = author_id\<rparr>)))"

fun index_full_names :: "string list \<Rightarrow> (string \<rightharpoonup> full_info) \<Rightarrow> (string \<rightharpoonup> full_info)" where
  "index_full_names [] full_names_dict = full_names_dict"
| "index_full_names (part # rest) full_names_dict =
     index_full_names rest
       (case parse_full_name part of
          None \<Rightarrow> full_names_dict
        | Some (last_name, info) \<Rightarrow> full_names_dict(last_name \<mapsto> info))"

definition build_full_names_dict :: "cell \<Rightarrow> (string \<rightharpoonup> full_info)" where
  "build_full_names_dict author_full_names =
     (case author_full_names of
        None \<Rightarrow> Map.empty
      | Some s \<Rightarrow> index_full_names (split (CHR '';'') s) Map.empty)"

text \<open>\<^verbatim>\<open>any(keyword.lower() in block.lower() for keyword in keywords)\<close>.\<close>

definition is_affiliated :: "string list \<Rightarrow> string \<Rightarrow> bool" where
  "is_affiliated keywords block =
     list_ex (\<lambda>keyword. contains (lower block) (lower keyword)) keywords"

text \<open>
  What an affiliated block appends to the three lists: nothing when it has fewer than two
  comma-separated parts.
\<close>

definition block_entry ::
  "(string \<rightharpoonup> full_info) \<Rightarrow> string \<Rightarrow> (string \<times> string \<times> string) option" where
  "block_entry full_names_dict block =
     (case split (CHR '','') block of
        p0 # p1 # _ \<Rightarrow>
          (let last_name = strip p0;
               first_name = strip p1;
               first_initial = (case first_name of [] \<Rightarrow> [] | c # _ \<Rightarrow> [c, CHR ''.'']);
               short_name = last_name @ '', '' @ first_initial
           in case full_names_dict last_name of
                Some info \<Rightarrow>
                  Some (short_name, full info @ '' ('' @ ident info @ '')'', full info)
              | None \<Rightarrow>
                  (let full_name = last_name @ '', '' @ first_name
                   in Some (short_name, full_name, full_name)))
      | _ \<Rightarrow> None)"

record author_lists =
  affiliate_authors_short :: "string list"
  affiliate_authors_with_ids :: "string list"
  affiliate_authors_full :: "string list"

text \<open>
  The loop over \<^verbatim>\<open>author_blocks\<close>. Iterating \<^verbatim>\<open>keywords\<close> raises \<^verbatim>\<open>TypeError\<close> when it
  is \<^verbatim>\<open>None\<close>; that happens at the first non-empty block.
\<close>

fun author_loop ::
  "(string \<rightharpoonup> full_info) \<Rightarrow> string list option \<Rightarrow> string list \<Rightarrow> author_lists
     \<Rightarrow> error + author_lists" where
  "author_loop full_names_dict keywords [] acc = Inr acc"
| "author_loop full_names_dict keywords (b # bs) acc =
     (let block = strip b
      in if block = [] then author_loop full_names_dict keywords bs acc
         else (case keywords of
                 None \<Rightarrow> Inl TypeError
               | Some ks \<Rightarrow>
                   if is_affiliated ks block
                   then (case block_entry full_names_dict block of
                           None \<Rightarrow> author_loop full_names_dict keywords bs acc
                         | Some (short_name, with_id, full_name) \<Rightarrow>
                             author_loop full_names_dict keywords bs
                               \<lparr>affiliate_authors_short = affiliate_authors_short acc @ [short_name],
                                affiliate_authors_with_ids = affiliate_authors_with_ids acc @ [with_id],
                                affiliate_authors_full = affiliate_authors_full acc @ [full_name]\<rparr>)
                   else author_loop full_names_dict keywords bs acc))"

record extracted =
  authors_short :: string
  authors_with_ids :: string
  authors_full :: string
  count :: nat

definition extract_affiliation_authors ::
  "cell \<Rightarrow> cell \<Rightarrow> string list option \<Rightarrow> error + extracted" where
  "extract_affiliation_authors authors_with_affiliations author_full_names keywords =
     (case authors_with_affiliations of
        None \<Rightarrow> Inr \<lparr>authors_short = [], authors_with_ids = [], authors_full = [], count = 0\<rparr>
      | Some s \<Rightarrow>
          (let author_blocks = split (CHR '';'') s;
               full_names_dict = build_full_names_dict author_full_names
           in case author_loop full_names_dict keywords author_blocks
                     \<lparr>affiliate_authors_short = [], affiliate_authors_with_ids = [],
                      affiliate_authors_full = []\<rparr> of
                Inl e \<Rightarrow> Inl e
              | Inr acc \<Rightarrow>
                  Inr \<lparr>authors_short = join ''; '' (affiliate_authors_short acc),
                       authors_with_ids = join ''; '' (affiliate_authors_with_ids acc),
                       authors_full = join ''; '' (affiliate_authors_full acc),
                       count = length (affiliate_authors_short acc)\<rparr>))"

text \<open>
  The blocks of an affiliation string as the loop sees them, the accepted ones (non-empty
  and matched by a keyword), and those among them that name an author (two parts or more).
\<close>

definition author_blocks_of :: "string \<Rightarrow> string list" where
  "author_blocks_of s = map strip (split (CHR '';'') s)"

definition accepted_blocks :: "string list \<Rightarrow> string \<Rightarrow> string list" where
  "accepted_blocks keywords s =
     filter (\<lambda>block. block \<noteq> [] \<and> is_affiliated keywords block) (author_blocks_of s)"


text \<open>
  The entries the accepted blocks append, in block order, and the last name a block is
  looked up by.
\<close>

definition block_entries ::
  "(string \<rightharpoonup> full_info) \<Rightarrow> string list \<Rightarrow> string \<Rightarrow> (string \<times> string \<times> string) list" where
  "block_entries full_names_dict keywords s =
     List.map_filter (block_entry full_names_dict) (accepted_blocks keywords s)"

definition block_last_name :: "string \<Rightarrow> string" where
  "block_last_name block = (case split (CHR '','') block of [] \<Rightarrow> [] | p # _ \<Rightarrow> strip p)"

section \<open>Department resolver\<close>

record dept_row =
  Author_Name :: cell
  Departament :: cell

datatype reason = not_found | multiple

record dept_info =
  department :: string
  needs_highlight :: bool
  highlight_reason :: "reason option"
  not_found_authors :: "string list"

text \<open>
  \<^verbatim>\<open>df[df['Author Name'].str.lower() == author.lower()]\<close>: a row whose author name is
  missing matches no author.
\<close>

definition matches :: "dept_row list \<Rightarrow> string \<Rightarrow> dept_row list" where
  "matches mapping author =
     filter (\<lambda>r. case Author_Name r of None \<Rightarrow> False | Some n \<Rightarrow> lower n = lower author)
       mapping"

fun collect_departments :: "dept_row list \<Rightarrow> string list \<Rightarrow> string list" where
  "collect_departments [] departments = departments"
| "collect_departments (r # rest) departments =
     collect_departments rest
       (case Departament r of
          None \<Rightarrow> departments
        | Some dept \<Rightarrow> if strip dept \<noteq> [] then departments @ [strip dept] else departments)"

fun authors_loop ::
  "dept_row frame \<Rightarrow> string list \<Rightarrow> string list \<Rightarrow> string list
     \<Rightarrow> error + (string list \<times> string list)" where
  "authors_loop df [] departments not_found_acc = Inr (departments, not_found_acc)"
| "authors_loop df (author # rest) departments not_found_acc =
     (if \<not> has_column df ''Author Name'' then Inl KeyError
      else
        let ms = matches (rows df) author
        in if length ms = 0 then authors_loop df rest departments (not_found_acc @ [author])
           else if \<not> has_column df ''Departament'' then Inl KeyError
           else authors_loop df rest (collect_departments ms departments) not_found_acc)"

text \<open>\<^verbatim>\<open>list(dict.fromkeys(xs))\<close>: the keys in the order of their first insertion.\<close>

definition dict_fromkeys :: "string list \<Rightarrow> string list" where
  "dict_fromkeys xs = foldl (\<lambda>keys x. if x \<in> set keys then keys else keys @ [x]) [] xs"

text \<open>
  The early return carries no \<^verbatim>\<open>not_found_authors\<close> entry; nothing reads that entry, and
  the model gives it the empty list.
\<close>

definition map_departments :: "cell \<Rightarrow> dept_row frame \<Rightarrow> error + dept_info" where
  "map_departments authors_string df_dept_mapping =
     (case authors_string of
        None \<Rightarrow>
          Inr \<lparr>department = [], needs_highlight = False, highlight_reason = None,
               not_found_authors = []\<rparr>
      | Some s \<Rightarrow>
          (if strip s = []
           then Inr \<lparr>department = [], needs_highlight = False, highlight_reason = None,
                     not_found_authors = []\<rparr>
           else
             (let authors = filter (\<lambda>a. a \<noteq> []) (map strip (split (CHR '';'') s))
              in (case authors_loop df_dept_mapping authors [] [] of
                    Inl e \<Rightarrow> Inl e
                  | Inr (collected, not_found_acc) \<Rightarrow>
                      (let departments = dict_fromkeys collected;
                           flagged =
                             (if not_found_acc \<noteq> [] then (True, Some not_found)
                              else if length departments > 1 then (True, Some multiple)
                              else (False, None))
                       in Inr \<lparr>department =
                                 (if departments \<noteq> [] then join ''; '' departments else []),
                               needs_highlight = fst flagged,
                               highlight_reason = snd flagged,
                               not_found_authors = not_found_acc\<rparr>)))))"


definition unresolved :: "dept_row list \<Rightarrow> string list \<Rightarrow> string list" where
  "unresolved mapping authors = filter (\<lambda>a. matches mapping a = []) authors"


section \<open>Pipeline orchestrator\<close>

datatype year_arg = Single int | Several "int list"

definition years_list :: "year_arg \<Rightarrow> int list" where
  "years_list year = (case year of Single y \<Rightarrow> [y] | Several ys \<Rightarrow> ys)"

text \<open>\<^verbatim>\<open>df[df['Year'].isin(years_list)]\<close>: a missing year is in no list.\<close>

definition filter_year :: "row frame \<Rightarrow> int list \<Rightarrow> error + row frame" where
  "filter_year df years =
     (if \<not> has_column df ''Year'' then Inl KeyError
      else Inr (df\<lparr>rows := filter (\<lambda>r. case Year r of None \<Rightarrow> False | Some y \<Rightarrow> y \<in> set years)
                              (rows df)\<rparr>))"

definition should_keep_article :: "string list \<Rightarrow> cell \<Rightarrow> bool" where
  "should_keep_article title_exclude_keywords title =
     (case title of
        None \<Rightarrow> True
      | Some t \<Rightarrow>
          \<not> list_ex (\<lambda>keyword. contains (lower t) (lower keyword)) title_exclude_keywords)"

definition filter_title :: "row frame \<Rightarrow> string list \<Rightarrow> error + row frame" where
  "filter_title df title_exclude_keywords =
     (if \<not> has_column df ''Title'' then Inl KeyError
      else Inr (df\<lparr>rows := filter (\<lambda>r. should_keep_article title_exclude_keywords (Title r))
                              (rows df)\<rparr>))"

record stats =
  original_scopus_count :: int
  original_united_count :: int
  after_year_filter_scopus :: int
  after_year_filter_united :: int
  after_title_filter :: int
  excluded_by_title :: int
  new_articles :: int
  duplicates_found :: int
  affiliated_articles :: int
  no_affiliated_authors :: int
  highlighted_depts :: int

text \<open>
  A result row. \<open>res_Year\<close> is the year, or \<open>None\<close> for the empty string that stands in
  for a missing year; a text cell taken from a column the source lacks is the empty string.
\<close>

record result_row =
  res_Departament :: string
  res_Authors :: string
  res_Authors_1 :: cell
  res_Author_full_names :: cell
  res_Title :: cell
  res_Year :: "int option"
  res_Source_title :: cell
  res_Volume :: cell
  res_Issue :: cell
  res_Art_No :: cell
  res_Page_start :: cell
  res_Page_end :: cell
  res_Page_count :: cell
  res_Source :: string
  res_Teqdimat :: string
  res_Data :: string
  res_Amount :: string
  res_Quartil :: string
  res_highlight :: bool
  res_highlight_reason :: "reason option"

text \<open>\<^verbatim>\<open>row[name] if name in row else ''\<close>.\<close>

definition cell_or_blank :: "row frame \<Rightarrow> string \<Rightarrow> cell \<Rightarrow> cell" where
  "cell_or_blank df name value = (if has_column df name then value else Some [])"

definition make_result_row :: "row frame \<Rightarrow> row \<Rightarrow> extracted \<Rightarrow> dept_info \<Rightarrow> result_row" where
  "make_result_row df r authors_info info =
     \<lparr>res_Departament = department info,
      res_Authors = authors_short authors_info,
      res_Authors_1 = cell_or_blank df ''Authors'' (Authors r),
      res_Author_full_names = cell_or_blank df ''Author full names'' (Author_full_names r),
      res_Title = Title r,
      res_Year = (if has_column df ''Year'' \<and> Year r \<noteq> None then Year r else None),
      res_Source_title = cell_or_blank df ''Source title'' (Source_title r),
      res_Volume = cell_or_blank df ''Volume'' (Volume r),
      res_Issue = cell_or_blank df ''Issue'' (Issue r),
      res_Art_No = cell_or_blank df ''Art. No.'' (Art_No r),
      res_Page_start = cell_or_blank df ''Page start'' (Page_start r),
      res_Page_end = cell_or_blank df ''Page end'' (Page_end r),
      res_Page_count = cell_or_blank df ''Page count'' (Page_count r),
      res_Source = ''Scopus'',
      res_Teqdimat = [],
      res_Data = [],
      res_Amount = [],
      res_Quartil = [],
      res_highlight = needs_highlight info,
      res_highlight_reason = highlight_reason info\<rparr>"

text \<open>The loop over the rows of \<^verbatim>\<open>df_new\<close>.\<close>

fun process_rows ::
  "row frame \<Rightarrow> dept_row frame \<Rightarrow> string list option \<Rightarrow> row list \<Rightarrow> result_row list \<Rightarrow> stats
     \<Rightarrow> error + (result_row list \<times> stats)" where
  "process_rows df_new df_dept_mapping affiliation_keywords [] result_data st =
     Inr (result_data, st)"
| "process_rows df_new df_dept_mapping affiliation_keywords (r # rest) result_data st =
     (if \<not> has_column df_new ''Authors with affiliations'' then Inl KeyError
      else if \<not> has_column df_new ''Author full names'' then Inl KeyError
      else
        (case extract_affiliation_authors (Authors_with_affiliations r) (Author_full_names r)
                affiliation_keywords of
           Inl e \<Rightarrow> Inl e
         | Inr authors_info \<Rightarrow>
             if count authors_info = 0
             then process_rows df_new df_dept_mapping affiliation_keywords rest result_data
                    (st\<lparr>no_affiliated_authors := no_affiliated_authors st + 1\<rparr>)
             else
               (case map_departments (Some (authors_short authors_info)) df_dept_mapping of
                  Inl e \<Rightarrow> Inl e
                | Inr info \<Rightarrow>
                    process_rows df_new df_dept_mapping affiliation_keywords rest
                      (result_data @ [make_result_row df_new r authors_info info])
                      (if needs_highlight info
                       then st\<lparr>affiliated_articles := affiliated_articles st + 1,
                               highlighted_depts := highlighted_depts st + 1\<rparr>
                       else st\<lparr>affiliated_articles := affiliated_articles st + 1\<rparr>))))"

definition result_columns :: "string list" where
  "result_columns =
     [''Departament'', ''Authors'', ''Authors.1'', ''Author full names'', ''Title'', ''Year'',
      ''Source title'', ''Volume'', ''Issue'', ''Art. No.'', ''Page start'', ''Page end'',
      ''Page count'', ''Source'', ''Teqdimat'', ''Data'', ''Amount'', ''Quartil'',
      ''_highlight'', ''_highlight_reason'']"

text \<open>\<^verbatim>\<open>pd.DataFrame(result_data)\<close>: no rows give a frame without columns.\<close>

definition DataFrame :: "result_row list \<Rightarrow> result_row frame" where
  "DataFrame result_data =
     \<lparr>columns = (if result_data = [] then [] else result_columns), rows = result_data\<rparr>"

text \<open>The year stage: both frames filtered when a year is given, the two counters set.\<close>

definition year_stage ::
  "row frame \<Rightarrow> row frame \<Rightarrow> year_arg option \<Rightarrow> stats \<Rightarrow> error + (row frame \<times> row frame \<times> stats)" where
  "year_stage df_source df_existing year st =
     (case year of
        None \<Rightarrow>
          Inr (df_source, df_existing,
               st\<lparr>after_year_filter_scopus := int (length (rows df_source)),
                  after_year_filter_united := int (length (rows df_existing))\<rparr>)
      | Some y \<Rightarrow>
          (case filter_year df_source (years_list y) of
             Inl e \<Rightarrow> Inl e
           | Inr df_source' \<Rightarrow>
               (case filter_year df_existing (years_list y) of
                  Inl e \<Rightarrow> Inl e
                | Inr df_existing' \<Rightarrow>
                    Inr (df_source', df_existing',
                         st\<lparr>after_year_filter_scopus := int (length (rows df_source')),
                            after_year_filter_united := int (length (rows df_existing'))\<rparr>))))"

text \<open>The title stage, active for a non-empty list of exclusion keywords.\<close>

definition title_stage ::
  "row frame \<Rightarrow> string list option \<Rightarrow> stats \<Rightarrow> error + (row frame \<times> stats)" where
  "title_stage df_source title_exclude_keywords st =
     (case title_exclude_keywords of
        Some (k # ks) \<Rightarrow>
          (case filter_title df_source (k # ks) of
             Inl e \<Rightarrow> Inl e
           | Inr df_source' \<Rightarrow>
               Inr (df_source',
                    st\<lparr>excluded_by_title :=
                         int (length (rows df_source)) - int (length (rows df_source')),
                       after_title_filter := int (length (rows df_source'))\<rparr>))
      | _ \<Rightarrow> Inr (df_source, st\<lparr>after_title_filter := int (length (rows df_source))\<rparr>))"

definition initial_stats :: "row frame \<Rightarrow> row frame \<Rightarrow> stats" where
  "initial_stats df_source df_existing =
     \<lparr>original_scopus_count = int (length (rows df_source)),
      original_united_count = int (length (rows df_existing)),
      after_year_filter_scopus = 0,
      after_year_filter_united = 0,
      after_title_filter = 0,
      excluded_by_title = 0,
      new_articles = 0,
      duplicates_found = 0,
      affiliated_articles = 0,
      no_affiliated_authors = 0,
      highlighted_depts = 0\<rparr>"

definition process_scopus_data ::
  "(string \<Rightarrow> string \<Rightarrow> int) \<Rightarrow> row frame \<Rightarrow> row frame \<Rightarrow> dept_row frame \<Rightarrow> int
     \<Rightarrow> year_arg option \<Rightarrow> string list option \<Rightarrow> string list option
     \<Rightarrow> error + (result_row frame \<times> stats)" where
  "process_scopus_data ratio df_source df_existing df_dept_mapping threshold year
       title_exclude_keywords affiliation_keywords =
     (case year_stage df_source df_existing year (initial_stats df_source df_existing) of
        Inl e \<Rightarrow> Inl e
      | Inr (df_source1, df_existing1, st1) \<Rightarrow>
          (case title_stage df_source1 title_exclude_keywords st1 of
             Inl e \<Rightarrow> Inl e
           | Inr (df_source2, st2) \<Rightarrow>
               (case find_new_articles ratio df_source2 df_existing1 threshold of
                  Inl e \<Rightarrow> Inl e
                | Inr (df_new, duplicates) \<Rightarrow>
                    (let st3 = st2\<lparr>new_articles := int (length (rows df_new)),
                                   duplicates_found := int (length duplicates)\<rparr>
                     in if length (rows df_new) = 0
                        then Inr (\<lparr>columns = [], rows = []\<rparr>, st3)
                        else (case process_rows df_new df_dept_mapping affiliation_keywords
                                     (rows df_new) [] st3 of
                                Inl e \<Rightarrow> Inl e
                              | Inr (result_data, st4) \<Rightarrow> Inr (DataFrame result_data, st4))))))"

text \<open>
  Binding the arguments of a call: Python raises \<^verbatim>\<open>TypeError\<close> for more positional
  arguments than parameters, for a keyword that names no parameter (the definition has no
  \<^verbatim>\<open>**kwargs\<close>), for a parameter given twice, and for a parameter without default that
  is not given. \<open>positional\<close> is the number of positional arguments, \<open>keywords\<close> the names
  of the keyword arguments.
\<close>

definition process_scopus_data_params :: "string list" where
  "process_scopus_data_params =
     [''df_source'', ''df_existing'', ''df_dept_mapping'', ''threshold'', ''year'',
      ''title_exclude_keywords'', ''affiliation_keywords'']"

definition process_scopus_data_required :: nat where
  "process_scopus_data_required = 3"

definition bind_call :: "string list \<Rightarrow> nat \<Rightarrow> nat \<Rightarrow> string list \<Rightarrow> error + string list" where
  "bind_call params required positional keywords =
     (if length params < positional then Inl TypeError
      else if list_ex (\<lambda>k. k \<notin> set params) keywords then Inl TypeError
      else if list_ex (\<lambda>k. k \<in> set (take positional params)) keywords \<or> \<not> distinct keywords
      then Inl TypeError
      else if list_ex (\<lambda>p. p \<notin> set (take positional params) \<and> p \<notin> set keywords)
                (take required params)
      then Inl TypeError
      else Inr (take positional params @ keywords))"

section \<open>Example data\<close>

text \<open>
  Concrete inputs for the runs evaluated below: a row with a title, an affiliation string
  and a full-name string, a frame that has only the title column, a frame with all the
  columns of a Scopus export, and a score that tells equal strings from different ones.
\<close>

definition example_row :: "cell \<Rightarrow> cell \<Rightarrow> cell \<Rightarrow> row" where
  "example_row title affiliations names =
     \<lparr>Title = title, Year = Some 2025, Authors = None, Author_full_names = names,
      Authors_with_affiliations = affiliations, Source_title = None, Volume = None,
      Issue = None, Art_No = None, Page_start = None, Page_end = None, Page_count = None\<rparr>"

definition exact_ratio :: "string \<Rightarrow> string \<Rightarrow> int" where
  "exact_ratio a b = (if a = b then 100 else 0)"

definition title_frame :: "cell list \<Rightarrow> row frame" where
  "title_frame titles =
     \<lparr>columns = [''Title''], rows = map (\<lambda>t. example_row t None None) titles\<rparr>"

definition scopus_columns :: "string list" where
  "scopus_columns =
     [''Authors'', ''Author full names'', ''Title'', ''Year'', ''Source title'', ''Volume'',
      ''Issue'', ''Art. No.'', ''Page start'', ''Page end'', ''Page count'',
      ''Authors with affiliations'']"

definition dept_frame :: "(string \<times> string) list \<Rightarrow> dept_row frame" where
  "dept_frame entries =
     \<lparr>columns = [''Author Name'', ''Departament''],
      rows = map (\<lambda>(a, d). \<lparr>Author_Name = Some a, Departament = Some d\<rparr>) entries\<rparr>"

definition scopus_frame :: "row list \<Rightarrow> row frame" where
  "scopus_frame rs = \<lparr>columns = scopus_columns, rows = rs\<rparr>"

text \<open>
  Three source rows: one new and affiliated, one new without an affiliated author, one
  whose title is in the reference corpus.
\<close>

definition example_source :: "row frame" where
  "example_source = scopus_frame
     [example_row (Some ''Deep Learning'') (Some ''Smith, John, Khazar University'')
        (Some ''Smith, John (1)''),
      example_row (Some ''Graphs'') (Some ''Doe, Jane, MIT'') None,
      example_row (Some ''Old Paper'') (Some ''Smith, John, Khazar University'') None]"

section \<open>Properties of the duplicate detector\<close>

lemmas str_simps = strip_def is_space_def is_digit_def lower_def lower_char_def

lemma scan_existing_found:
  "found (scan_existing ratio threshold raw source titles bs bt) =
     map_option (\<lambda>e. \<lparr>source_title = raw, matched_title = e, similarity = ratio source e\<rparr>)
       (first_qualifying ratio threshold source titles)"
  by (induction titles arbitrary: bs bt) (simp_all add: first_qualifying_def Let_def)

lemma scan_existing_is_duplicate:
  "is_duplicate (scan_existing ratio threshold raw source titles bs bt) =
     (first_qualifying ratio threshold source titles \<noteq> None)"
  by (induction titles arbitrary: bs bt) (simp_all add: first_qualifying_def Let_def)

lemma first_qualifying_prefix:
  assumes "\<forall>p\<in>set ps. ratio s p < threshold" and "threshold \<le> ratio s e"
  shows "first_qualifying ratio threshold s (ps @ e # qs) = Some e"
  using assms by (induction ps) (auto simp: first_qualifying_def)

lemma source_loop_char:
  "source_loop ratio threshold titles True rs new dups =
     Inr (new @ filter (\<lambda>r. first_qualifying ratio threshold (normalize_title (Title r)) titles
                              = None) rs,
          dups @ List.map_filter (duplicate_report ratio threshold titles) rs)"
proof (induction rs arbitrary: new dups)
  case Nil
  show ?case by simp
next
  case (Cons r rs)
  show ?case
    by (cases "first_qualifying ratio threshold (normalize_title (Title r)) titles")
       (simp_all add: Cons.IH Let_def scan_existing_found scan_existing_is_duplicate
          duplicate_report_def)
qed

lemma find_new_articles_char:
  assumes "has_column df_source ''Title''" and "has_column df_existing ''Title''"
  shows "find_new_articles ratio df_source df_existing threshold =
     Inr (df_source\<lparr>rows := filter (\<lambda>r. first_qualifying ratio threshold (normalize_title (Title r))
                 (reference_titles df_existing) = None) (rows df_source)\<rparr>,
          List.map_filter (duplicate_report ratio threshold (reference_titles df_existing))
            (rows df_source))"
  using assms by (simp add: find_new_articles_def source_loop_char Let_def reference_titles_def)

lemma length_map_filter:
  "length (List.map_filter f xs) = length (filter (\<lambda>x. f x \<noteq> None) xs)"
  by (induction xs) (auto split: option.splits)

lemma length_filter_mono:
  assumes "\<And>x. P x \<Longrightarrow> Q x"
  shows "length (filter P xs) \<le> length (filter Q xs)"
  using assms by (induction xs) auto

text \<open>
  C2. With the title column in both frames, the detector returns the source rows, in
  order, for which no reference title reaches the threshold, and one report per other
  row, made from the first reference title (in the given order) that reaches it. The scan
  stops there: when the titles before \<open>e\<close> stay below the threshold and \<open>e\<close> reaches it,
  the report names \<open>e\<close> with its score, whatever titles \<open>qs\<close> follow.
\<close>

theorem find_new_articles_first_match:
  assumes "has_column df_source ''Title''" and "has_column df_existing ''Title''"
  shows "find_new_articles ratio df_source df_existing threshold =
           Inr (df_source\<lparr>rows := filter (\<lambda>r. first_qualifying ratio threshold
                   (normalize_title (Title r)) (reference_titles df_existing) = None)
                   (rows df_source)\<rparr>,
                List.map_filter (duplicate_report ratio threshold (reference_titles df_existing))
                  (rows df_source))
         \<and> (\<forall>s raw ps e qs. (\<forall>p\<in>set ps. ratio s p < threshold) \<and> threshold \<le> ratio s e \<longrightarrow>
               first_qualifying ratio threshold s (ps @ e # qs) = Some e
               \<and> found (scan_existing ratio threshold raw s (ps @ e # qs) 0 []) =
                   Some \<lparr>source_title = raw, matched_title = e, similarity = ratio s e\<rparr>)"
  using assms
  by (simp add: find_new_articles_char scan_existing_found first_qualifying_prefix)

theorem find_new_articles_first_match_witness:
  "has_column (title_frame [Some ''Deep Learning'', Some ''Graphs'']) ''Title''
   \<and> has_column (title_frame [Some ''deep  learning '', Some ''Deep learning'']) ''Title''
   \<and> find_new_articles exact_ratio (title_frame [Some ''Deep Learning'', Some ''Graphs''])
        (title_frame [Some ''deep  learning '', Some ''Deep learning'']) 90 =
      Inr (title_frame [Some ''Graphs''],
           [\<lparr>source_title = Some ''Deep Learning'', matched_title = ''deep learning'',
             similarity = 100\<rparr>])"
proof -
  have a: "has_column (title_frame [Some ''Deep Learning'', Some ''Graphs'']) ''Title''"
    by (simp add: has_column_def title_frame_def)
  have b: "has_column (title_frame [Some ''deep  learning '', Some ''Deep learning'']) ''Title''"
    by (simp add: has_column_def title_frame_def)
  show ?thesis
    using find_new_articles_first_match [OF a b, of exact_ratio 90] a b
    by (simp add: title_frame_def reference_titles_def first_qualifying_def duplicate_report_def
          normalize_title_def example_row_def exact_ratio_def str_simps)
qed

text \<open>
  C8. Detection is monotonic in the threshold: for the same frames and score, the run at
  the higher threshold \<open>t2\<close> reports at most as many duplicates as the run at \<open>t1\<close>. The
  thresholds need not lie in the range from 0 to 100.
\<close>

theorem duplicates_monotonic_in_threshold:
  assumes "t1 \<le> t2"
    and "has_column df_source ''Title''" and "has_column df_existing ''Title''"
  shows "\<exists>new1 dups1 new2 dups2.
           find_new_articles ratio df_source df_existing t1 = Inr (new1, dups1)
         \<and> find_new_articles ratio df_source df_existing t2 = Inr (new2, dups2)
         \<and> length dups2 \<le> length dups1"
proof -
  let ?ts = "reference_titles df_existing"
  have sub: "duplicate_report ratio t2 ?ts r \<noteq> None \<Longrightarrow> duplicate_report ratio t1 ?ts r \<noteq> None"
    for r
    using assms(1)
    by (auto simp: duplicate_report_def first_qualifying_def find_None_iff intro: order_trans)
  have "length (List.map_filter (duplicate_report ratio t2 ?ts) (rows df_source))
        \<le> length (List.map_filter (duplicate_report ratio t1 ?ts) (rows df_source))"
    unfolding length_map_filter by (rule length_filter_mono) (rule sub)
  then show ?thesis
    by (simp add: find_new_articles_char [OF assms(2,3)])
qed

theorem duplicates_monotonic_in_threshold_witness:
  "(90::int) \<le> 100
   \<and> has_column (title_frame [Some ''Deep Learning'', Some ''Graphs'']) ''Title''
   \<and> has_column (title_frame [Some ''deep learning'']) ''Title''
   \<and> (\<exists>new1 dups1 new2 dups2.
         find_new_articles exact_ratio (title_frame [Some ''Deep Learning'', Some ''Graphs''])
           (title_frame [Some ''deep learning'']) 90 = Inr (new1, dups1)
       \<and> find_new_articles exact_ratio (title_frame [Some ''Deep Learning'', Some ''Graphs''])
           (title_frame [Some ''deep learning'']) 100 = Inr (new2, dups2)
       \<and> length dups2 \<le> length dups1)"
proof -
  have le: "(90::int) \<le> 100" by simp
  have a: "has_column (title_frame [Some ''Deep Learning'', Some ''Graphs'']) ''Title''"
    by (simp add: has_column_def title_frame_def)
  have b: "has_column (title_frame [Some ''deep learning'']) ''Title''"
    by (simp add: has_column_def title_frame_def)
  show ?thesis
    using duplicates_monotonic_in_threshold [OF le a b, of exact_ratio] le a b by blast
qed

lemma map_filter_member:
  "f x = Some y \<Longrightarrow> x \<in> set xs \<Longrightarrow> y \<in> set (List.map_filter f xs)"
  by (induction xs) (auto split: option.splits)

text \<open>
  C9. When the score of two equal strings is 100, a source row whose normalized title
  equals the normalized title of some reference row is a duplicate at every threshold up
  to 100: it is not among the new rows, and a report carries its title. A missing title
  normalizes to the empty string.
\<close>

theorem exact_title_is_duplicate:
  assumes "\<forall>s. ratio s s = 100" and "threshold \<le> 100"
    and "has_column df_source ''Title''" and "has_column df_existing ''Title''"
    and "r \<in> set (rows df_source)" and "e \<in> set (rows df_existing)"
    and "normalize_title (Title r) = normalize_title (Title e)"
  shows "\<exists>df_new dups.
           find_new_articles ratio df_source df_existing threshold = Inr (df_new, dups)
         \<and> r \<notin> set (rows df_new)
         \<and> (\<exists>d\<in>set dups. source_title d = Title r)
         \<and> normalize_title None = []"
proof -
  let ?ts = "reference_titles df_existing"
  let ?s = "normalize_title (Title r)"
  have "?s \<in> set ?ts"
    using assms(6,7) by (auto simp: reference_titles_def)
  moreover have "threshold \<le> ratio ?s ?s"
    using assms(1,2) by simp
  ultimately have "first_qualifying ratio threshold ?s ?ts \<noteq> None"
    by (auto simp: first_qualifying_def find_None_iff)
  then obtain t where t: "first_qualifying ratio threshold ?s ?ts = Some t"
    by auto
  have rep: "duplicate_report ratio threshold ?ts r =
          Some \<lparr>source_title = Title r, matched_title = t, similarity = ratio ?s t\<rparr>"
    by (simp add: duplicate_report_def t)
  have "\<lparr>source_title = Title r, matched_title = t, similarity = ratio ?s t\<rparr>
          \<in> set (List.map_filter (duplicate_report ratio threshold ?ts) (rows df_source))"
    using rep assms(5) by (rule map_filter_member)
  then show ?thesis
    using t by (simp add: find_new_articles_char [OF assms(3,4)] normalize_title_def) force
qed

theorem exact_title_is_duplicate_witness:
  "(\<forall>s. exact_ratio s s = 100) \<and> (100::int) \<le> 100
   \<and> has_column (title_frame [Some ''Deep Learning in Healthcare'']) ''Title''
   \<and> has_column (title_frame [Some ''Deep learning  in healthcare '']) ''Title''
   \<and> normalize_title (Some ''Deep Learning in Healthcare'') =
       normalize_title (Some ''Deep learning  in healthcare '')
   \<and> (\<exists>df_new dups.
         find_new_articles exact_ratio (title_frame [Some ''Deep Learning in Healthcare''])
           (title_frame [Some ''Deep learning  in healthcare '']) 100 = Inr (df_new, dups)
       \<and> example_row (Some ''Deep Learning in Healthcare'') None None \<notin> set (rows df_new)
       \<and> (\<exists>d\<in>set dups. source_title d = Some ''Deep Learning in Healthcare''))"
proof -
  let ?r = "example_row (Some ''Deep Learning in Healthcare'') None None"
  let ?e = "example_row (Some ''Deep learning  in healthcare '') None None"
  have refl: "\<forall>s. exact_ratio s s = 100" by (simp add: exact_ratio_def)
  have le: "(100::int) \<le> 100" by simp
  have a: "has_column (title_frame [Some ''Deep Learning in Healthcare'']) ''Title''"
    by (simp add: has_column_def title_frame_def)
  have b: "has_column (title_frame [Some ''Deep learning  in healthcare '']) ''Title''"
    by (simp add: has_column_def title_frame_def)
  have r: "?r \<in> set (rows (title_frame [Some ''Deep Learning in Healthcare'']))"
    by (simp add: title_frame_def)
  have e: "?e \<in> set (rows (title_frame [Some ''Deep learning  in healthcare '']))"
    by (simp add: title_frame_def)
  have n: "normalize_title (Some ''Deep Learning in Healthcare'') =
       normalize_title (Some ''Deep learning  in healthcare '')"
    by (simp add: normalize_title_def str_simps)
  have n': "normalize_title (Title ?r) = normalize_title (Title ?e)"
    using n by (simp add: example_row_def)
  have t: "Title ?r = Some ''Deep Learning in Healthcare''" by (simp add: example_row_def)
  show ?thesis
    using exact_title_is_duplicate [where ratio = exact_ratio and threshold = 100
        and df_source = "title_frame [Some ''Deep Learning in Healthcare'']"
        and df_existing = "title_frame [Some ''Deep learning  in healthcare '']"
        and r = ?r and e = ?e, OF refl le a b r e n'] refl le a b n
    unfolding t by blast
qed

section \<open>Properties of the affiliation author extractor\<close>

lemma author_loop_char:
  "author_loop d (Some ks) bs acc =
     Inr \<lparr>affiliate_authors_short = affiliate_authors_short acc @
             map fst (List.map_filter (block_entry d)
               (filter (\<lambda>b. b \<noteq> [] \<and> is_affiliated ks b) (map strip bs))),
          affiliate_authors_with_ids = affiliate_authors_with_ids acc @
             map (fst \<circ> snd) (List.map_filter (block_entry d)
               (filter (\<lambda>b. b \<noteq> [] \<and> is_affiliated ks b) (map strip bs))),
          affiliate_authors_full = affiliate_authors_full acc @
             map (snd \<circ> snd) (List.map_filter (block_entry d)
               (filter (\<lambda>b. b \<noteq> [] \<and> is_affiliated ks b) (map strip bs)))\<rparr>"
proof (induction bs arbitrary: acc)
  case Nil
  show ?case by simp
next
  case (Cons b bs)
  show ?case
    by (simp add: Cons.IH Let_def split: option.splits prod.splits)
qed

lemma extract_char:
  "extract_affiliation_authors (Some s) f (Some ks) =
     Inr \<lparr>authors_short = join ''; '' (map fst (block_entries (build_full_names_dict f) ks s)),
          authors_with_ids = join ''; '' (map (fst \<circ> snd) (block_entries (build_full_names_dict f) ks s)),
          authors_full = join ''; '' (map (snd \<circ> snd) (block_entries (build_full_names_dict f) ks s)),
          count = length (block_entries (build_full_names_dict f) ks s)\<rparr>"
  by (simp add: extract_affiliation_authors_def author_loop_char Let_def block_entries_def
        accepted_blocks_def author_blocks_of_def)



lemma author_loop_no_keywords: "author_loop d (Some []) bs acc = Inr acc"
  by (induction bs) (simp_all add: Let_def is_affiliated_def)




text \<open>
  C6. A missing or empty affiliation string gives three empty strings and the count 0,
  whatever the full names and the keywords are (a missing keyword list included); and so
  does every affiliation string when the keyword list is empty.
\<close>

theorem empty_input_gives_empty_output:
  "extract_affiliation_authors None f keywords =
      Inr \<lparr>authors_short = [], authors_with_ids = [], authors_full = [], count = 0\<rparr>
   \<and> extract_affiliation_authors (Some []) f keywords =
      Inr \<lparr>authors_short = [], authors_with_ids = [], authors_full = [], count = 0\<rparr>
   \<and> extract_affiliation_authors a f (Some []) =
      Inr \<lparr>authors_short = [], authors_with_ids = [], authors_full = [], count = 0\<rparr>"
  by (cases a) (simp_all add: extract_affiliation_authors_def author_loop_no_keywords strip_def)

theorem empty_input_gives_empty_output_witness:
  "extract_affiliation_authors None (Some ''Smith, John (1)'') (Some [''Khazar'']) =
      Inr \<lparr>authors_short = [], authors_with_ids = [], authors_full = [], count = 0\<rparr>
   \<and> extract_affiliation_authors (Some []) (Some ''Smith, John (1)'') (Some [''Khazar'']) =
      Inr \<lparr>authors_short = [], authors_with_ids = [], authors_full = [], count = 0\<rparr>
   \<and> extract_affiliation_authors (Some ''Smith, John, Khazar University'')
        (Some ''Smith, John (1)'') (Some []) =
      Inr \<lparr>authors_short = [], authors_with_ids = [], authors_full = [], count = 0\<rparr>"
  using empty_input_gives_empty_output [of "Some ''Smith, John (1)''" "Some [''Khazar'']"
      "Some ''Smith, John, Khazar University''"]
  by simp

lemma index_full_names_append:
  "index_full_names (xs @ ys) d = index_full_names ys (index_full_names xs d)"
  by (induction xs arbitrary: d) simp_all

lemma index_full_names_other:
  assumes "\<forall>q\<in>set qs. map_option fst (parse_full_name q) \<noteq> Some k"
  shows "index_full_names qs d k = d k"
  using assms
proof (induction qs arbitrary: d)
  case Nil
  show ?case by simp
next
  case (Cons q qs)
  then show ?case by (auto split: option.splits)
qed

lemma index_full_names_last:
  assumes "parse_full_name p = Some (k, info)"
    and "\<forall>q\<in>set qs. map_option fst (parse_full_name q) \<noteq> Some k"
  shows "index_full_names (ps @ p # qs) d k = Some info"
  using assms by (simp add: index_full_names_append index_full_names_other)

text \<open>
  C10. When the entry \<open>p\<close> of the full-name string parses to the last name \<open>last_name\<close>
  and no later entry parses to that last name, the lookup maps \<open>last_name\<close> to the entry of
  \<open>p\<close>, whatever entries come before \<open>p\<close>; every block with two parts or more and that
  last name gets its with-ID and full-name values from that entry; and the three output
  strings are joined from the entries of the accepted blocks, looked up in that table.
\<close>

theorem last_full_name_entry_wins:
  assumes "split (CHR '';'') names = ps @ p # qs"
    and "parse_full_name p = Some (last_name, info)"
    and "\<forall>q\<in>set qs. map_option fst (parse_full_name q) \<noteq> Some last_name"
  shows "build_full_names_dict (Some names) last_name = Some info
       \<and> index_full_names (ps @ p # qs) Map.empty last_name =
           index_full_names (p # qs) Map.empty last_name
       \<and> (\<forall>block. 2 \<le> length (split (CHR '','') block) \<and> block_last_name block = last_name \<longrightarrow>
             map_option snd (block_entry (build_full_names_dict (Some names)) block) =
               Some (full info @ '' ('' @ ident info @ '')'', full info))
       \<and> extract_affiliation_authors (Some s) (Some names) (Some ks) =
           Inr \<lparr>authors_short = join ''; ''
                  (map fst (block_entries (build_full_names_dict (Some names)) ks s)),
                authors_with_ids = join ''; ''
                  (map (fst \<circ> snd) (block_entries (build_full_names_dict (Some names)) ks s)),
                authors_full = join ''; ''
                  (map (snd \<circ> snd) (block_entries (build_full_names_dict (Some names)) ks s)),
                count = length (block_entries (build_full_names_dict (Some names)) ks s)\<rparr>"
proof -
  have d: "build_full_names_dict (Some names) last_name = Some info"
    using index_full_names_last [OF assms(2,3), of ps Map.empty]
    by (simp add: build_full_names_dict_def assms(1))
  have e: "index_full_names (ps @ p # qs) Map.empty last_name =
           index_full_names (p # qs) Map.empty last_name"
    using index_full_names_last [OF assms(2,3), of ps Map.empty]
      index_full_names_last [OF assms(2,3), of "[]" Map.empty] by simp
  have b: "map_option snd (block_entry (build_full_names_dict (Some names)) block) =
             Some (full info @ '' ('' @ ident info @ '')'', full info)"
    if "2 \<le> length (split (CHR '','') block)" and "block_last_name block = last_name" for block
    using that d
    by (auto simp: block_entry_def block_last_name_def Let_def split: list.splits)
  show ?thesis
    using d e b by (simp add: extract_char)
qed

theorem last_full_name_entry_wins_witness:
  "split (CHR '';'') ''Smith, John (1); Smith, Jane (2); Doe, Ann (3)'' =
      [''Smith, John (1)''] @ '' Smith, Jane (2)'' # ['' Doe, Ann (3)'']
   \<and> parse_full_name ''Smith, John (1)'' = Some (''Smith'', \<lparr>full = ''Smith, John'', ident = ''1''\<rparr>)
   \<and> parse_full_name '' Smith, Jane (2)'' = Some (''Smith'', \<lparr>full = ''Smith, Jane'', ident = ''2''\<rparr>)
   \<and> build_full_names_dict (Some ''Smith, John (1); Smith, Jane (2); Doe, Ann (3)'') ''Smith'' =
       Some \<lparr>full = ''Smith, Jane'', ident = ''2''\<rparr>
   \<and> extract_affiliation_authors (Some ''Smith, John, Khazar University'')
        (Some ''Smith, John (1); Smith, Jane (2); Doe, Ann (3)'') (Some [''Khazar'']) =
       Inr \<lparr>authors_short = ''Smith, J.'', authors_with_ids = ''Smith, Jane (2)'',
            authors_full = ''Smith, Jane'', count = 1\<rparr>"
proof -
  have a: "split (CHR '';'') ''Smith, John (1); Smith, Jane (2); Doe, Ann (3)'' =
      [''Smith, John (1)''] @ '' Smith, Jane (2)'' # ['' Doe, Ann (3)'']"
    by simp
  have p0: "parse_full_name ''Smith, John (1)'' =
      Some (''Smith'', \<lparr>full = ''Smith, John'', ident = ''1''\<rparr>)"
    by (simp add: parse_full_name_def id_suffix_def str_simps)
  have p: "parse_full_name '' Smith, Jane (2)'' =
      Some (''Smith'', \<lparr>full = ''Smith, Jane'', ident = ''2''\<rparr>)"
    by (simp add: parse_full_name_def id_suffix_def str_simps)
  have q: "\<forall>q\<in>set ['' Doe, Ann (3)'']. map_option fst (parse_full_name q) \<noteq> Some ''Smith''"
    by (simp add: parse_full_name_def id_suffix_def str_simps)
  have b: "block_entries (build_full_names_dict (Some ''Smith, John (1); Smith, Jane (2); Doe, Ann (3)''))
             [''Khazar''] ''Smith, John, Khazar University'' =
           [(''Smith, J.'', ''Smith, Jane (2)'', ''Smith, Jane'')]"
    using last_full_name_entry_wins [OF a p q]
    by (simp add: block_entries_def accepted_blocks_def author_blocks_of_def is_affiliated_def
          block_entry_def str_simps)
  show ?thesis
    using last_full_name_entry_wins [OF a p q, of "''Smith, John, Khazar University''" "[''Khazar'']"]
      a p0 p
    by (simp only: b) simp
qed

section \<open>Properties of the department resolver\<close>

lemma collect_departments_append:
  "collect_departments ms deps = deps @ collect_departments ms []"
proof (induction ms arbitrary: deps)
  case Nil
  show ?case by simp
next
  case (Cons r ms)
  show ?case
    using Cons.IH [of "deps @ [strip (the (Departament r))]"] Cons.IH [of "[strip (the (Departament r))]"]
      Cons.IH [of deps]
    by (auto split: option.splits)
qed

lemma authors_loop_char:
  assumes "has_column df ''Author Name''" and "has_column df ''Departament''"
  shows "authors_loop df authors deps nf =
     Inr (deps @ concat (map (\<lambda>a. collect_departments (matches (rows df) a) []) authors),
          nf @ unresolved (rows df) authors)"
proof (induction authors arbitrary: deps nf)
  case Nil
  show ?case by (simp add: unresolved_def)
next
  case (Cons a authors)
  show ?case
  proof (cases "matches (rows df) a = []")
    case True
    then show ?thesis
      using assms by (simp add: Cons.IH unresolved_def)
  next
    case False
    then show ?thesis
      using assms collect_departments_append [of "matches (rows df) a" deps]
      by (simp add: Cons.IH unresolved_def Let_def)
  qed
qed






section \<open>Properties of the pipeline\<close>

lemma filter_map_filter_length:
  assumes "\<And>x. P x = (f x = None)"
  shows "length (filter P xs) + length (List.map_filter f xs) = length xs"
  by (induction xs) (simp_all add: assms split: option.splits)

lemma source_loop_lengths:
  assumes "source_loop ratio threshold titles has_title rs new dups = Inr (new', dups')"
  shows "length new' + length dups' = length new + length dups + length rs"
proof (cases has_title)
  case True
  have "length (filter (\<lambda>r. first_qualifying ratio threshold (normalize_title (Title r)) titles = None) rs)
        + length (List.map_filter (duplicate_report ratio threshold titles) rs) = length rs"
    by (rule filter_map_filter_length) (simp add: duplicate_report_def)
  then show ?thesis
    using assms True by (auto simp: source_loop_char)
next
  case False
  then show ?thesis
    using assms by (cases rs) simp_all
qed

lemma find_new_articles_lengths:
  assumes "find_new_articles ratio df_source df_existing threshold = Inr (df_new, dups)"
  shows "int (length (rows df_new)) + int (length dups) = int (length (rows df_source))"
proof -
  obtain new' where
    sl: "source_loop ratio threshold (map (\<lambda>r. normalize_title (Title r)) (rows df_existing))
       (has_column df_source ''Title'') (rows df_source) [] [] = Inr (new', dups)"
    and dn: "df_new = df_source\<lparr>rows := new'\<rparr>"
    using assms
    by (auto simp: find_new_articles_def Let_def split: if_splits sum.splits)
  show ?thesis
    using source_loop_lengths [OF sl] dn by simp
qed

lemma process_rows_counts:
  assumes "process_rows df dm kws rs rd st = Inr (rd', st')"
  shows "affiliated_articles st' + no_affiliated_authors st' =
           affiliated_articles st + no_affiliated_authors st + int (length rs)
       \<and> new_articles st' = new_articles st
       \<and> duplicates_found st' = duplicates_found st
       \<and> after_title_filter st' = after_title_filter st"
  using assms
proof (induction rs arbitrary: rd st)
  case Nil
  then show ?case by simp
next
  case (Cons r rs)
  from Cons.prems show ?case
    by (auto simp: Let_def split: if_splits sum.splits dest!: Cons.IH)
qed

lemma title_stage_count:
  assumes "title_stage df kws st = Inr (df', st')"
  shows "after_title_filter st' = int (length (rows df'))"
  using assms
  by (auto simp: title_stage_def split: option.splits list.splits sum.splits)

text \<open>
  The pipeline returns when the frames have the columns it reads and a list of
  affiliation keywords is given.
\<close>

lemma extract_returns: "\<exists>r. extract_affiliation_authors a f (Some ks) = Inr r"
  by (cases a) (simp_all add: extract_char, simp add: extract_affiliation_authors_def)

lemma map_departments_returns:
  assumes "has_column df ''Author Name''" and "has_column df ''Departament''"
  shows "\<exists>info. map_departments a df = Inr info"
  by (cases a) (simp_all add: map_departments_def authors_loop_char [OF assms] Let_def)

lemma process_rows_returns:
  assumes "has_column df ''Authors with affiliations''" and "has_column df ''Author full names''"
    and "has_column dm ''Author Name''" and "has_column dm ''Departament''"
  shows "\<exists>rd' st'. process_rows df dm (Some ks) rs rd st = Inr (rd', st')"
proof (induction rs arbitrary: rd st)
  case Nil
  show ?case by simp
next
  case (Cons r rs)
  obtain ai where ai:
    "extract_affiliation_authors (Authors_with_affiliations r) (Author_full_names r) (Some ks) = Inr ai"
    using extract_returns by blast
  show ?case
  proof (cases "count ai = 0")
    case True
    then show ?thesis using assms(1,2) ai Cons.IH by simp
  next
    case False
    obtain info where info: "map_departments (Some (authors_short ai)) dm = Inr info"
      using map_departments_returns [OF assms(3,4)] by blast
    show ?thesis using assms(1,2) ai False info Cons.IH by simp
  qed
qed

lemma year_stage_returns:
  assumes "has_column df_source ''Year''" and "has_column df_existing ''Year''"
  shows "\<exists>df' ef' st'. year_stage df_source df_existing year st = Inr (df', ef', st')
           \<and> columns df' = columns df_source \<and> columns ef' = columns df_existing"
proof (cases year)
  case None
  then show ?thesis by (simp add: year_stage_def)
next
  case (Some y)
  then show ?thesis using assms by (simp add: year_stage_def filter_year_def)
qed

lemma title_stage_returns:
  assumes "has_column df ''Title''"
  shows "\<exists>df' st'. title_stage df kws st = Inr (df', st') \<and> columns df' = columns df"
proof (cases kws)
  case None
  then show ?thesis by (simp add: title_stage_def)
next
  case (Some ks)
  then show ?thesis
    using assms by (cases ks) (simp_all add: title_stage_def filter_title_def)
qed

lemma find_new_articles_returns:
  assumes "has_column df_source ''Title''" and "has_column df_existing ''Title''"
  shows "\<exists>df_new dups. find_new_articles ratio df_source df_existing threshold = Inr (df_new, dups)
           \<and> columns df_new = columns df_source"
  by (simp add: find_new_articles_char [OF assms])

lemma has_column_cong: "columns df' = columns df \<Longrightarrow> has_column df' name = has_column df name"
  by (simp add: has_column_def)

lemma process_scopus_data_returns:
  assumes "has_column df_source ''Title''" and "has_column df_source ''Year''"
    and "has_column df_source ''Authors with affiliations''"
    and "has_column df_source ''Author full names''"
    and "has_column df_existing ''Title''" and "has_column df_existing ''Year''"
    and "has_column df_dept_mapping ''Author Name''"
    and "has_column df_dept_mapping ''Departament''"
  shows "\<exists>result st. process_scopus_data ratio df_source df_existing df_dept_mapping threshold
           year title_exclude_keywords (Some ks) = Inr (result, st)"
proof -
  obtain df1 ef1 st1 where
    ys: "year_stage df_source df_existing year (initial_stats df_source df_existing) =
           Inr (df1, ef1, st1)"
    and c1: "columns df1 = columns df_source" and e1: "columns ef1 = columns df_existing"
    using year_stage_returns [OF assms(2,6)] by blast
  have t1: "has_column df1 ''Title''"
    using assms(1) by (simp add: has_column_cong [OF c1])
  obtain df2 st2 where
    ts: "title_stage df1 title_exclude_keywords st1 = Inr (df2, st2)"
    and c2: "columns df2 = columns df1"
    using title_stage_returns [OF t1] by blast
  have t2: "has_column df2 ''Title''"
    using t1 by (simp add: has_column_cong [OF c2])
  have te: "has_column ef1 ''Title''"
    using assms(5) by (simp add: has_column_cong [OF e1])
  obtain df_new dups where
    fn: "find_new_articles ratio df2 ef1 threshold = Inr (df_new, dups)"
    and c3: "columns df_new = columns df2"
    using find_new_articles_returns [OF t2 te] by blast
  have cn: "columns df_new = columns df_source"
    using c1 c2 c3 by simp
  have a: "has_column df_new ''Authors with affiliations''"
    using assms(3) by (simp add: has_column_cong [OF cn])
  have b: "has_column df_new ''Author full names''"
    using assms(4) by (simp add: has_column_cong [OF cn])
  let ?st3 = "st2\<lparr>new_articles := int (length (rows df_new)),
                  duplicates_found := int (length dups)\<rparr>"
  obtain rd st4 where
    pr: "process_rows df_new df_dept_mapping (Some ks) (rows df_new) [] ?st3 = Inr (rd, st4)"
    using process_rows_returns [OF a b assms(7,8)] by blast
  show ?thesis
  proof (cases "length (rows df_new) = 0")
    case True
    then show ?thesis
      unfolding process_scopus_data_def by (simp add: ys ts fn Let_def)
  next
    case False
    then show ?thesis
      unfolding process_scopus_data_def by (simp add: ys ts fn pr Let_def)
  qed
qed

text \<open>
  C1. Whenever the pipeline returns, on the early return as on the full run, the
  statistics satisfy \<open>affiliated_articles + no_affiliated_authors = new_articles\<close> and
  \<open>new_articles + duplicates_found = after_title_filter\<close>. A run that raises returns no
  statistics; \<open>process_scopus_data_returns\<close> above gives inputs on which every run returns.
\<close>

theorem stats_counters_consistent:
  assumes "process_scopus_data ratio df_source df_existing df_dept_mapping threshold year
             title_exclude_keywords affiliation_keywords = Inr (result, st)"
  shows "affiliated_articles st + no_affiliated_authors st = new_articles st
       \<and> new_articles st + duplicates_found st = after_title_filter st"
proof -
  obtain df_source1 df_existing1 st1 df_source2 st2 df_new duplicates where
    ys: "year_stage df_source df_existing year (initial_stats df_source df_existing) =
           Inr (df_source1, df_existing1, st1)"
    and ts: "title_stage df_source1 title_exclude_keywords st1 = Inr (df_source2, st2)"
    and fn: "find_new_articles ratio df_source2 df_existing1 threshold = Inr (df_new, duplicates)"
    using assms by (auto simp: process_scopus_data_def split: sum.splits)
  let ?st3 = "st2\<lparr>new_articles := int (length (rows df_new)),
                  duplicates_found := int (length duplicates)\<rparr>"
  have at: "after_title_filter st2 = int (length (rows df_source2))"
    using ts by (rule title_stage_count)
  have len: "int (length (rows df_new)) + int (length duplicates) = int (length (rows df_source2))"
    using fn by (rule find_new_articles_lengths)
  have zero: "affiliated_articles st2 = 0 \<and> no_affiliated_authors st2 = 0"
    using ys ts
    by (auto simp: year_stage_def title_stage_def initial_stats_def filter_year_def
          split: option.splits list.splits sum.splits if_splits)
  show ?thesis
  proof (cases "length (rows df_new) = 0")
    case True
    then have "st = ?st3"
      using assms ys ts fn by (simp add: process_scopus_data_def Let_def)
    then show ?thesis using True at len zero by simp
  next
    case False
    then obtain result_data where
      pr: "process_rows df_new df_dept_mapping affiliation_keywords (rows df_new) [] ?st3
             = Inr (result_data, st)"
      using assms ys ts fn
      by (auto simp: process_scopus_data_def Let_def split: sum.splits)
    show ?thesis
      using process_rows_counts [OF pr] at len zero by simp
  qed
qed

lemmas run_simps =
  process_scopus_data_def year_stage_def title_stage_def initial_stats_def
  find_new_articles_def example_source_def scopus_frame_def scopus_columns_def title_frame_def
  dept_frame_def example_row_def exact_ratio_def has_column_def normalize_title_def
  extract_affiliation_authors_def build_full_names_dict_def parse_full_name_def id_suffix_def
  is_affiliated_def block_entry_def map_departments_def matches_def dict_fromkeys_def
  make_result_row_def cell_or_blank_def DataFrame_def Let_def str_simps

lemma example_run:
  "\<exists>result st.
     process_scopus_data exact_ratio example_source (title_frame [Some ''old  paper''])
       (dept_frame [(''Smith, J.'', ''Computer Science'')]) 90 None None (Some [''Khazar''])
       = Inr (result, st)
     \<and> affiliated_articles st = 1 \<and> new_articles st = 2 \<and> duplicates_found st = 1
     \<and> after_title_filter st = 3 \<and> highlighted_depts st = 0 \<and> length (rows result) = 1"
  by (simp add: run_simps)

theorem stats_counters_consistent_witness:
  "\<exists>result st.
     process_scopus_data exact_ratio example_source (title_frame [Some ''old  paper''])
       (dept_frame [(''Smith, J.'', ''Computer Science'')]) 90 None None (Some [''Khazar''])
       = Inr (result, st)
     \<and> affiliated_articles st + no_affiliated_authors st = new_articles st
     \<and> new_articles st + duplicates_found st = after_title_filter st
     \<and> affiliated_articles st = 1 \<and> no_affiliated_authors st = 1 \<and> new_articles st = 2
     \<and> duplicates_found st = 1 \<and> after_title_filter st = 3"
proof -
  obtain result st where
    run: "process_scopus_data exact_ratio example_source (title_frame [Some ''old  paper''])
       (dept_frame [(''Smith, J.'', ''Computer Science'')]) 90 None None (Some [''Khazar''])
       = Inr (result, st)"
    and counts: "affiliated_articles st = 1" "new_articles st = 2" "duplicates_found st = 1"
      "after_title_filter st = 3"
    using example_run by blast
  have "no_affiliated_authors st = 1"
    using stats_counters_consistent [OF run] counts by simp
  then show ?thesis
    using stats_counters_consistent [OF run] run counts by blast
qed

text \<open>
  C3. The pipeline does not return on every input. With the default
  \<^verbatim>\<open>affiliation_keywords=None\<close> the first non-empty author block raises \<^verbatim>\<open>TypeError\<close>;
  a source frame without the column \<^verbatim>\<open>Author full names\<close> raises \<^verbatim>\<open>KeyError\<close> at the
  extractor call, before the guarded read of that column in the result row; a reference
  frame without the column \<^verbatim>\<open>Title\<close> raises \<^verbatim>\<open>KeyError\<close> in the duplicate detector.
\<close>

theorem process_raises_on_absent_inputs:
  "process_scopus_data ratio
      (scopus_frame [example_row (Some ''Deep Learning'') (Some ''Smith, John, Khazar University'')
         None])
      (title_frame []) (dept_frame []) 90 None None None = Inl TypeError
   \<and> process_scopus_data ratio
      \<lparr>columns = [''Title'', ''Authors with affiliations''],
       rows = [example_row (Some ''Deep Learning'') (Some ''Smith, John, Khazar University'')
         None]\<rparr>
      (title_frame []) (dept_frame []) 90 None None (Some [''Khazar'']) = Inl KeyError
   \<and> process_scopus_data ratio
      (scopus_frame [example_row (Some ''Deep Learning'') (Some ''Smith, John, Khazar University'')
         None])
      \<lparr>columns = [], rows = []\<rparr> (dept_frame []) 90 None None (Some [''Khazar'']) = Inl KeyError"
  by (simp add: run_simps)

text \<open>
  C4. The call made by \<^verbatim>\<open>app.py\<close>, three positional arguments and the keywords
  \<^verbatim>\<open>threshold\<close>, \<^verbatim>\<open>year\<close>, \<^verbatim>\<open>title_exclude_keywords\<close>, \<^verbatim>\<open>affiliation_keywords\<close> and
  \<^verbatim>\<open>affiliation_exclude_keywords\<close>, does not bind to the seven parameters of
  \<^verbatim>\<open>process_scopus_data\<close>: it raises \<^verbatim>\<open>TypeError\<close>. Without the last keyword it binds.
\<close>

theorem call_with_affiliation_exclude_keywords:
  "bind_call process_scopus_data_params process_scopus_data_required 3
      [''threshold'', ''year'', ''title_exclude_keywords'', ''affiliation_keywords'',
       ''affiliation_exclude_keywords''] = Inl TypeError
   \<and> bind_call process_scopus_data_params process_scopus_data_required 3
      [''threshold'', ''year'', ''title_exclude_keywords'', ''affiliation_keywords''] =
     Inr process_scopus_data_params"
  by (simp add: bind_call_def process_scopus_data_params_def process_scopus_data_required_def)

end
